theory Spec2Isabelle
  imports Main "HOL-Library.DAList" "HOL-Library.AList"
begin

section \<open>JavaScript values\<close>

text \<open>
  The values that flow through \<^verbatim>\<open>src/puppet.js\<close>. \<open>Native n\<close> is a built-in
  function or object of the engine (opaque, truthy), named by \<open>n\<close>; \<open>TypeError m\<close> is
  the error object the engine raises with message \<open>m\<close>. An \<open>Object\<close> lists its own
  enumerable properties in the engine's property order. \<open>Number n\<close> is the number
  with the integer value \<open>n\<close>, of magnitude below \<open>2 ^ 53\<close>: other numbers do not
  occur.
\<close>

datatype jsval =
    Undefined
  | Null
  | Boolean bool
  | Number int
  | String string
  | Array "jsval list"
  | Object "(string \<times> jsval) list"
  | Native string
  | TypeError string

text \<open>ToBoolean, as used by \<^verbatim>\<open>!x\<close> and \<^verbatim>\<open>x || y\<close>.\<close>

fun truthy :: "jsval \<Rightarrow> bool" where
  "truthy Undefined = False"
| "truthy Null = False"
| "truthy (Boolean b) = b"
| "truthy (Number n) = (n \<noteq> 0)"
| "truthy (String s) = (s \<noteq> [])"
| "truthy (Array xs) = True"
| "truthy (Object kvs) = True"
| "truthy (Native n) = True"
| "truthy (TypeError m) = True"

definition apos :: string where
  "apos = [CHR 0x27]"

text \<open>
  Reading the property \<open>k\<close> of a value, \<^verbatim>\<open>v.k\<close>, for the keys the source reads by
  name (\<^verbatim>\<open>bridge\<close>, \<^verbatim>\<open>puppet\<close>, \<^verbatim>\<open>homeserverUrl\<close>, \<^verbatim>\<open>domain\<close>, \<^verbatim>\<open>id\<close>,
  \<^verbatim>\<open>token\<close>, \<^verbatim>\<open>message\<close>, \<^verbatim>\<open>room_id\<close>, \<^verbatim>\<open>access_token\<close>): none of them names
  a built-in of a prototype, so the read finds an own property or nothing. On
  \<^verbatim>\<open>undefined\<close> and \<^verbatim>\<open>null\<close> the engine raises a TypeError.
\<close>

fun get_property :: "jsval \<Rightarrow> string \<Rightarrow> jsval + jsval" where
  "get_property Undefined k =
     Inl (TypeError (''Cannot read property '' @ apos @ k @ apos @ '' of undefined''))"
| "get_property Null k =
     Inl (TypeError (''Cannot read property '' @ apos @ k @ apos @ '' of null''))"
| "get_property (Object kvs) k = Inr (case map_of kvs k of Some v \<Rightarrow> v | None \<Rightarrow> Undefined)"
| "get_property (TypeError m) k = Inr (if k = ''message'' then String m else Undefined)"
| "get_property (Boolean b) k = Inr Undefined"
| "get_property (Number n) k = Inr Undefined"
| "get_property (String s) k = Inr Undefined"
| "get_property (Array xs) k = Inr Undefined"
| "get_property (Native n) k = Inr Undefined"

section \<open>The logger\<close>

text \<open>
  \<^verbatim>\<open>log.debug\<close>, \<^verbatim>\<open>log.info\<close>, \<^verbatim>\<open>log.warn\<close> and \<^verbatim>\<open>log.error\<close> append a line:
  the level and the arguments of the call.
\<close>

datatype level = Debug | Info | Warn | Error

type_synonym logline = "level \<times> jsval list"

section \<open>The room-membership cache\<close>

text \<open>
  \<^verbatim>\<open>this.matrixRoomMembers\<close> is an object literal \<^verbatim>\<open>{}\<close>: it has own properties
  (room identifier to member list) and a prototype, which is \<^verbatim>\<open>Object.prototype\<close>
  (\<open>None\<close>) until an assignment to the key \<^verbatim>\<open>__proto__\<close> replaces it by the
  assigned array (\<open>Some ks\<close>). What the built-in prototypes hold depends on the
  engine, so their property names are a parameter, and so is the conversion of a value
  to a string that a template literal applies.
\<close>

record engine =
  ObjectPrototype :: "string list"
  ArrayPrototype :: "string list"
  ToString :: "jsval \<Rightarrow> string"

record cache =
  own :: "string \<rightharpoonup> string list"
  prototype :: "string list option"

definition empty_cache :: cache where
  "empty_cache = \<lparr>own = Map.empty, prototype = None\<rparr>"

definition is_digit :: "char \<Rightarrow> bool" where
  "is_digit c = (c \<in> set ''0123456789'')"

definition digit_val :: "char \<Rightarrow> nat" where
  "digit_val c = of_char c - 48"

text \<open>A property key that is a canonical array index: decimal, no leading zero.\<close>

definition array_index :: "string \<Rightarrow> nat option" where
  "array_index s =
     (if s = [] \<or> \<not> list_all is_digit s \<or> (1 < length s \<and> hd s = CHR ''0'') then None
      else Some (foldl (\<lambda>n c. 10 * n + digit_val c) 0 s))"

definition from_Object_prototype :: "engine \<Rightarrow> string \<Rightarrow> jsval" where
  "from_Object_prototype E k =
     (if k \<in> set (ObjectPrototype E) then Native (''Object.prototype.'' @ k) else Undefined)"

definition from_Array_prototype :: "engine \<Rightarrow> string \<Rightarrow> jsval" where
  "from_Array_prototype E k =
     (if k \<in> set (ArrayPrototype E) then Native (''Array.prototype.'' @ k)
      else from_Object_prototype E k)"

text \<open>
  What a read of \<open>k\<close> finds on the prototype chain, below the own properties.
  \<^verbatim>\<open>__proto__\<close> is the accessor of \<^verbatim>\<open>Object.prototype\<close> and answers the prototype.
\<close>

definition inherited :: "engine \<Rightarrow> string list option \<Rightarrow> string \<Rightarrow> jsval" where
  "inherited E proto k =
     (if k = ''__proto__'' then
        (case proto of None \<Rightarrow> Native ''Object.prototype'' | Some ks \<Rightarrow> Array (map String ks))
      else
        (case proto of
           None \<Rightarrow> from_Object_prototype E k
         | Some ks \<Rightarrow>
             if k = ''length'' then Number (int (length ks))
             else (case array_index k of
                     None \<Rightarrow> from_Array_prototype E k
                   | Some i \<Rightarrow> if i < length ks then String (ks ! i)
                              else from_Array_prototype E k)))"

text \<open>\<^verbatim>\<open>this.matrixRoomMembers[k]\<close>\<close>

definition cache_get :: "engine \<Rightarrow> cache \<Rightarrow> string \<Rightarrow> jsval" where
  "cache_get E c k =
     (case own c k of Some ks \<Rightarrow> Array (map String ks) | None \<Rightarrow> inherited E (prototype c) k)"

text \<open>
  \<^verbatim>\<open>this.matrixRoomMembers[k] = ks\<close>: an own property is created or overwritten, but
  the key \<^verbatim>\<open>__proto__\<close> reaches the setter of \<^verbatim>\<open>Object.prototype\<close>, which replaces
  the prototype.
\<close>

definition cache_set :: "cache \<Rightarrow> string \<Rightarrow> string list \<Rightarrow> cache" where
  "cache_set c k ks =
     (if k = ''__proto__'' \<and> own c k = None then c\<lparr>prototype := Some ks\<rparr>
      else c\<lparr>own := (own c)(k \<mapsto> ks)\<rparr>)"

section \<open>The puppet and its surroundings\<close>

text \<open>
  The fields of \<^verbatim>\<open>Puppet\<close>. A client of the SDK is a handle. The injected
  collaborators (\<^verbatim>\<open>sdk\<close>, \<^verbatim>\<open>fs\<close>, \<^verbatim>\<open>readline\<close>) are not fields here: each
  operation takes the answers of the calls it makes as arguments.
\<close>

record puppet =
  config :: jsval
  pathToConfig :: string
  client :: "nat option"
  matrixRoomMembers :: cache

text \<open>The constructor, lines 14 to 22.\<close>

definition new_Puppet :: "string \<Rightarrow> nat option \<Rightarrow> jsval \<Rightarrow> puppet" where
  "new_Puppet path cl cfg =
     \<lparr>config = cfg, pathToConfig = path, client = cl, matrixRoomMembers = empty_cache\<rparr>"

text \<open>
  The state of a \<^verbatim>\<open>RoomState\<close> of the SDK that the callback reads: the room
  identifier and the members object, whose keys are the members' user identifiers. An
  object has each key once, in property order.
\<close>

record roomState =
  roomId :: string
  members :: "(string, jsval) alist"

definition Object_keys :: "(string, jsval) alist \<Rightarrow> string list" where
  "Object_keys m = map fst (DAList.impl_of m)"

datatype promise = Pending | Fulfilled jsval | Rejected jsval

text \<open>
  The puppet together with what \<^verbatim>\<open>startClient\<close> leaves outside it: for each call
  that got as far as line 36, the two callbacks registered on that call's client
  (\<open>listeners\<close>: the client and the promise the \<^verbatim>\<open>sync\<close> callback resolves), the
  promises created so far, and the log.
\<close>

record world =
  this :: puppet
  listeners :: "(nat \<times> nat) list"
  promises :: "promise list"
  logged :: "logline list"

definition new_world :: "string \<Rightarrow> nat option \<Rightarrow> jsval \<Rightarrow> world" where
  "new_world path cl cfg =
     \<lparr>this = new_Puppet path cl cfg, listeners = [], promises = [], logged = []\<rparr>"

text \<open>
  \<^verbatim>\<open>startClient\<close>, lines 29 to 49. \<open>createClient\<close> answers
  \<^verbatim>\<open>this.sdk.createClient(opts)\<close> with a thrown value or a client; \<open>client_start\<close>
  is what \<^verbatim>\<open>this.client.startClient()\<close> throws, if it does. The result is the value
  the returned promise is rejected with, or the index of the pending promise of line 36,
  whose state the returned promise takes on. The executor of line 36 runs at once: it
  empties the cache and registers the two callbacks.
\<close>

definition startClient ::
  "(jsval \<Rightarrow> jsval + nat) \<Rightarrow> (nat \<Rightarrow> jsval option) \<Rightarrow> world \<Rightarrow> world \<times> (jsval + nat)" where
  "startClient createClient client_start w =
     (case get_property (config (this w)) ''bridge'' of Inl e \<Rightarrow> (w, Inl e) | Inr bridge \<Rightarrow>
     (case get_property bridge ''homeserverUrl'' of Inl e \<Rightarrow> (w, Inl e) | Inr url \<Rightarrow>
     (case get_property (config (this w)) ''puppet'' of Inl e \<Rightarrow> (w, Inl e) | Inr pup \<Rightarrow>
     (case get_property pup ''id'' of Inl e \<Rightarrow> (w, Inl e) | Inr uid \<Rightarrow>
     (case get_property pup ''token'' of Inl e \<Rightarrow> (w, Inl e) | Inr tok \<Rightarrow>
     (case createClient
             (Object [(''baseUrl'', url), (''userId'', uid), (''accessToken'', tok)]) of
        Inl e \<Rightarrow> (w, Inl e)
      | Inr c \<Rightarrow>
          (let p1 = (this w)\<lparr>client := Some c\<rparr> in
           (case client_start c of
              Some e \<Rightarrow> (w\<lparr>this := p1\<rparr>, Inl e)
            | None \<Rightarrow>
                (\<lparr>this = p1\<lparr>matrixRoomMembers := empty_cache\<rparr>,
                  listeners = listeners w @ [(c, length (promises w))],
                  promises = promises w @ [Pending],
                  logged = logged w\<rparr>,
                 Inr (length (promises w)))))))))))"

text \<open>The callback of lines 38 to 40.\<close>

definition on_RoomState_members :: "roomState \<Rightarrow> puppet \<Rightarrow> puppet" where
  "on_RoomState_members state p =
     p\<lparr>matrixRoomMembers :=
         cache_set (matrixRoomMembers p) (roomId state) (Object_keys (members state))\<rparr>"

text \<open>\<^verbatim>\<open>resolve()\<close> of the promise \<open>n\<close>: a settled promise stays as it is.\<close>

definition resolve :: "nat \<Rightarrow> promise list \<Rightarrow> promise list" where
  "resolve n ps =
     (if n < length ps \<and> ps ! n = Pending then ps[n := Fulfilled Undefined] else ps)"

text \<open>The callback of lines 42 to 47, registered for the promise \<open>n\<close>.\<close>

definition on_sync :: "nat \<Rightarrow> string \<Rightarrow> world \<Rightarrow> world" where
  "on_sync n state w =
     (if state = ''PREPARED''
      then w\<lparr>logged := logged w @ [(Info, [String ''synced''])],
             promises := resolve n (promises w)\<rparr>
      else w)"

text \<open>
  An event of a client reaches every callback registered on that client, in the order
  of registration.
\<close>

datatype event = RoomState_members nat roomState | Sync nat string

fun emit :: "event \<Rightarrow> world \<Rightarrow> world" where
  "emit (RoomState_members c state) w =
     fold (\<lambda>l w'. w'\<lparr>this := on_RoomState_members state (this w')\<rparr>)
       (filter (\<lambda>l. fst l = c) (listeners w)) w"
| "emit (Sync c state) w =
     fold (\<lambda>l. on_sync (snd l) state) (filter (\<lambda>l. fst l = c) (listeners w)) w"

text \<open>\<^verbatim>\<open>getMatrixRoomMembers\<close>, lines 57 to 59.\<close>

definition getMatrixRoomMembers :: "engine \<Rightarrow> puppet \<Rightarrow> string \<Rightarrow> jsval" where
  "getMatrixRoomMembers E p r =
     (let v = cache_get E (matrixRoomMembers p) r in if truthy v then v else Array [])"

text \<open>What happens to a puppet: calls of \<^verbatim>\<open>startClient\<close> and events of its clients.\<close>

datatype action =
    Start "jsval \<Rightarrow> jsval + nat" "nat \<Rightarrow> jsval option"
  | Emit event

fun step :: "action \<Rightarrow> world \<Rightarrow> world" where
  "step (Start cc cs) w = fst (startClient cc cs w)"
| "step (Emit e) w = emit e w"

definition run :: "action list \<Rightarrow> world \<Rightarrow> world" where
  "run as w = fold step as w"

section \<open>Room lookup and join\<close>

text \<open>
  An \<^verbatim>\<open>async\<close> method answers with a promise; the model gives the state the promise
  ends in, and the lines logged. A call of the SDK's client is answered by a rejection
  (\<open>Inl\<close>, also for a value thrown) or a value (\<open>Inr\<close>). A method called on
  \<^verbatim>\<open>this.client\<close> while it is \<^verbatim>\<open>undefined\<close> raises a TypeError.
\<close>

definition no_client :: "string \<Rightarrow> jsval" where
  "no_client method =
     TypeError (''Cannot read property '' @ apos @ method @ apos @ '' of undefined'')"

definition room_absent_line :: logline where
  "room_absent_line =
     (Debug, [String (''the room doesn'' @ apos @
                ''t exist. we need to create it for the first time'')])"

text \<open>
  \<^verbatim>\<open>getRoom\<close>, lines 82 to 91. A response that is \<^verbatim>\<open>undefined\<close> or
  \<^verbatim>\<open>null\<close> cannot be destructured: the TypeError is caught like a rejection, and
  the catch block does not look at what it caught.
\<close>

definition getRoom ::
  "(nat \<Rightarrow> string \<Rightarrow> jsval + jsval) \<Rightarrow> puppet \<Rightarrow> string \<Rightarrow> promise \<times> logline list" where
  "getRoom getRoomIdForAlias p roomAlias =
     (case (case client p of
              None \<Rightarrow> Inl (no_client ''getRoomIdForAlias'')
            | Some c \<Rightarrow>
                (case getRoomIdForAlias c roomAlias of
                   Inl err \<Rightarrow> Inl err
                 | Inr response \<Rightarrow> get_property response ''room_id'')) of
        Inr room_id \<Rightarrow>
          (Fulfilled room_id,
           [(Debug, [String ''found matrix room via alias. room_id:'', room_id])])
      | Inl err \<Rightarrow> (Fulfilled Undefined, [room_absent_line]))"

definition no_known_servers_warning :: string where
  "no_known_servers_warning =
     ''we cannot use this room anymore because you cannot currently rejoin an empty room '' @
     ''(synapse limitation? riot throws this error too). we need to de-alias it now so a '' @
     ''new room gets created that we can actually use.''"

text \<open>
  \<^verbatim>\<open>joinRoom\<close>, lines 112 to 124. Reading \<^verbatim>\<open>err.message\<close> in the catch block
  raises when the promise was rejected with \<^verbatim>\<open>undefined\<close> or \<^verbatim>\<open>null\<close>.
\<close>

definition joinRoom ::
  "(nat \<Rightarrow> string \<Rightarrow> jsval + jsval) \<Rightarrow> puppet \<Rightarrow> string \<Rightarrow> promise \<times> logline list" where
  "joinRoom client_joinRoom p matrixRoomId =
     (case (case client p of
              None \<Rightarrow> Inl (no_client ''joinRoom'')
            | Some c \<Rightarrow> client_joinRoom c matrixRoomId) of
        Inr v \<Rightarrow> (Fulfilled Undefined, [])
      | Inl err \<Rightarrow>
          (case get_property err ''message'' of
             Inl e \<Rightarrow> (Rejected e, [])
           | Inr m \<Rightarrow>
               if m = String ''No known servers''
               then (Fulfilled (Boolean True), [(Warn, [String no_known_servers_warning])])
               else (Fulfilled Undefined,
                     [(Warn, [String ''ignoring error from puppet join room: '', m])])))"

section \<open>Invitations\<close>

text \<open>
  A promise of the SDK settles at some time; \<open>(t, r)\<close> is a promise that is rejected
  (\<open>Inl\<close>) or fulfilled (\<open>Inr\<close>) at time \<open>t\<close>. \<^verbatim>\<open>Promise.all\<close> is rejected
  with the reason of the first of its promises to be rejected, and is fulfilled with
  the array of their values when none is.
\<close>

type_synonym settled = "nat \<times> (jsval + jsval)"

definition rejection :: "settled \<Rightarrow> jsval option" where
  "rejection r = (case snd r of Inl e \<Rightarrow> Some e | Inr v \<Rightarrow> None)"

definition fulfilment :: "settled \<Rightarrow> jsval option" where
  "fulfilment r = (case snd r of Inl e \<Rightarrow> None | Inr v \<Rightarrow> Some v)"

definition Promise_all :: "settled list \<Rightarrow> promise" where
  "Promise_all rs =
     (case List.map_filter rejection (sort_key fst rs) of
        e # es \<Rightarrow> Rejected e
      | [] \<Rightarrow> Fulfilled (Array (List.map_filter fulfilment rs)))"

text \<open>What a call returns: a plain value, or a promise (given by the state it ends in).\<close>

datatype ret = Value jsval | Promise promise

text \<open>
  \<^verbatim>\<open>.then(() => log.debug(...))\<close> on the promise of one invite: a rejection passes
  through, a fulfilment logs and becomes what \<^verbatim>\<open>log.debug\<close> returns.
\<close>

definition then_log :: "jsval \<Rightarrow> settled \<Rightarrow> settled" where
  "then_log logret r = (fst r, case snd r of Inl e \<Rightarrow> Inl e | Inr v \<Rightarrow> Inr logret)"

definition invited_line :: "jsval \<Rightarrow> settled \<times> jsval \<Rightarrow> logline option" where
  "invited_line matrixRoomId ru =
     (case snd (fst ru) of
        Inl e \<Rightarrow> None
      | Inr v \<Rightarrow> Some (Debug, [String ''New user %s invited to room %s'', snd ru, matrixRoomId]))"

definition already_joined_line :: "jsval \<Rightarrow> logline" where
  "already_joined_line matrixRoomId =
     (Debug, [String (''All members in skype skypeRoom are already joined to '' @
                ''Matrix room: ''), matrixRoomId])"

text \<open>
  The promises of the calls \<^verbatim>\<open>this.client.invite(matrixRoomId, user)\<close> that the
  \<^verbatim>\<open>map\<close> of line 139 makes, one for each user, in order: \<open>client_invite c room
  user i\<close> is the promise of the \<open>i\<close>-th call.
\<close>

definition invites ::
  "(nat \<Rightarrow> jsval \<Rightarrow> jsval \<Rightarrow> nat \<Rightarrow> settled) \<Rightarrow> nat \<Rightarrow> jsval \<Rightarrow> jsval list \<Rightarrow> settled list" where
  "invites client_invite c matrixRoomId users =
     map (\<lambda>iu. client_invite c matrixRoomId (snd iu) (fst iu)) (enumerate 0 users)"

text \<open>
  \<^verbatim>\<open>invite\<close>, lines 133 to 142; not an \<^verbatim>\<open>async\<close> method. \<open>logret\<close> is what
  \<^verbatim>\<open>log.debug\<close> returns. The result is what the method throws or
  returns, the lines logged (those of the fulfilled invites in the order they settle),
  and the calls of \<^verbatim>\<open>this.client.invite\<close> made.
\<close>

definition invite ::
  "(nat \<Rightarrow> jsval \<Rightarrow> jsval \<Rightarrow> nat \<Rightarrow> settled) \<Rightarrow> jsval \<Rightarrow> puppet \<Rightarrow> jsval \<Rightarrow> jsval \<Rightarrow>
     (jsval + ret) \<times> logline list \<times> (jsval \<times> jsval) list" where
  "invite client_invite logret p matrixRoomId invitedUsers =
     (if \<not> truthy invitedUsers then
        (Inr (Value Undefined), [already_joined_line matrixRoomId], [])
      else
        let users_line = (Info, [String ''Users to invite'', invitedUsers]) in
        (case invitedUsers of
           Array users \<Rightarrow>
             (case client p of
                None \<Rightarrow>
                  if users = [] then (Inr (Promise (Promise_all [])), [users_line], [])
                  else (Inl (no_client ''invite''), [users_line], [])
              | Some c \<Rightarrow>
                  let rs = invites client_invite c matrixRoomId users
                  in (Inr (Promise (Promise_all (map (then_log logret) rs))),
                      users_line #
                        List.map_filter (invited_line matrixRoomId)
                          (sort_key (\<lambda>ru. fst (fst ru)) (zip rs users)),
                      map (Pair matrixRoomId) users))
         | _ \<Rightarrow> (Inl (TypeError ''invitedUsers.map is not a function''), [users_line], [])))"

section \<open>Association\<close>

text \<open>
  The own enumerable properties that the spread \<^verbatim>\<open>{...v}\<close> copies, in order.
\<close>

fun spread :: "engine \<Rightarrow> jsval \<Rightarrow> (string \<times> jsval) list" where
  "spread E (Object kvs) = kvs"
| "spread E (Array xs) = zip (map (\<lambda>i. ToString E (Number (int i))) [0..<length xs]) xs"
| "spread E (String s) =
     zip (map (\<lambda>i. ToString E (Number (int i))) [0..<length s]) (map (\<lambda>c. String [c]) s)"
| "spread E v = []"

definition banner :: string where
  "banner = ''This bridge performs matrix user puppeting.'' @ [CHR 0x0A] @
     ''This means that the bridge logs in as your user and acts on your behalf''"

definition localpart_prompt :: string where
  "localpart_prompt = ''Enter your user'' @ apos @ ''s localpart'' @ [CHR 0x0A]"

definition password_prompt :: "string \<Rightarrow> string" where
  "password_prompt uid = ''Enter password for '' @ uid @ [CHR 0x0A]"

text \<open>The template literal of line 154.\<close>

definition puppet_id :: "engine \<Rightarrow> string \<Rightarrow> jsval \<Rightarrow> string" where
  "puppet_id E localpart domain = ''@'' @ localpart @ '':'' @ ToString E domain"

text \<open>The object literal of lines 160 to 167.\<close>

definition with_puppet ::
  "engine \<Rightarrow> jsval \<Rightarrow> string \<Rightarrow> string \<Rightarrow> jsval \<Rightarrow> (string \<times> jsval) list" where
  "with_puppet E cfg uid localpart token =
     AList.update ''puppet''
       (Object [(''id'', String uid), (''localpart'', String localpart), (''token'', token)])
       (spread E cfg)"

definition access_token :: "(string \<times> jsval) list \<Rightarrow> jsval" where
  "access_token accessDat =
     (case map_of accessDat ''access_token'' of Some t \<Rightarrow> t | None \<Rightarrow> Undefined)"

text \<open>
  The body of the \<^verbatim>\<open>try\<close> block of \<^verbatim>\<open>associate\<close>, lines 149 to 168: the value
  thrown, if any, the lines logged and the calls of \<^verbatim>\<open>writeFile\<close> made.
  \<open>question prompt hide\<close> answers \<^verbatim>\<open>this.readline.question\<close>; \<open>createClient\<close> answers
  \<^verbatim>\<open>this.sdk.createClient(url)\<close>; \<open>loginWithPassword\<close> is rejected or answers with
  the properties of the response object; \<open>writeFile path v\<close> is the rejection, if
  any, of \<^verbatim>\<open>this.fs.writeFile(path, JSON.stringify(v, null, 2))\<close>. A write is recorded
  as the path and the value serialised.
\<close>

definition associate_try ::
  "engine \<Rightarrow> (string \<Rightarrow> bool \<Rightarrow> jsval + string) \<Rightarrow> (jsval \<Rightarrow> jsval + nat) \<Rightarrow>
   (nat \<Rightarrow> string \<Rightarrow> string \<Rightarrow> jsval + (string \<times> jsval) list) \<Rightarrow>
   (string \<Rightarrow> jsval \<Rightarrow> jsval option) \<Rightarrow> puppet \<Rightarrow>
     jsval option \<times> logline list \<times> (string \<times> jsval) list" where
  "associate_try E question createClient loginWithPassword writeFile p =
     (let l1 = [(Info, [String banner])] in
      (case question localpart_prompt False of
         Inl e \<Rightarrow> (Some e, l1, [])
       | Inr localpart \<Rightarrow>
      (case get_property (config p) ''bridge'' of Inl e \<Rightarrow> (Some e, l1, []) | Inr bridge \<Rightarrow>
      (case get_property bridge ''domain'' of Inl e \<Rightarrow> (Some e, l1, []) | Inr domain \<Rightarrow>
      (let id = puppet_id E localpart domain in
      (case question (password_prompt id) True of
         Inl e \<Rightarrow> (Some e, l1, [])
       | Inr password \<Rightarrow>
      (case get_property bridge ''homeserverUrl'' of Inl e \<Rightarrow> (Some e, l1, []) | Inr url \<Rightarrow>
      (case createClient url of Inl e \<Rightarrow> (Some e, l1, []) | Inr matrixClient \<Rightarrow>
      (case loginWithPassword matrixClient id password of
         Inl e \<Rightarrow> (Some e, l1, [])
       | Inr accessDat \<Rightarrow>
      (let l2 = l1 @ [(Info, [String ''log in success''])];
           written = Object (with_puppet E (config p) id localpart (access_token accessDat))
       in (case writeFile (pathToConfig p) written of
             Some e \<Rightarrow> (Some e, l2, [(pathToConfig p, written)])
           | None \<Rightarrow>
               (None, l2 @ [(Info, [String (''Updated config file '' @ pathToConfig p)])],
                [(pathToConfig p, written)]))))))))))))"

text \<open>\<^verbatim>\<open>associate\<close>, lines 147 to 173: the catch block logs the error and throws it again.\<close>

definition associate ::
  "engine \<Rightarrow> (string \<Rightarrow> bool \<Rightarrow> jsval + string) \<Rightarrow> (jsval \<Rightarrow> jsval + nat) \<Rightarrow>
   (nat \<Rightarrow> string \<Rightarrow> string \<Rightarrow> jsval + (string \<times> jsval) list) \<Rightarrow>
   (string \<Rightarrow> jsval \<Rightarrow> jsval option) \<Rightarrow> puppet \<Rightarrow>
     promise \<times> logline list \<times> (string \<times> jsval) list" where
  "associate E question createClient loginWithPassword writeFile p =
     (case associate_try E question createClient loginWithPassword writeFile p of
        (Some error, ls, ws) \<Rightarrow> (Rejected error, ls @ [(Error, [error])], ws)
      | (None, ls, ws) \<Rightarrow> (Fulfilled Undefined, ls, ws))"

section \<open>Notions used in the statements\<close>

text \<open>A client whose events the puppet observes: \<^verbatim>\<open>startClient\<close> registered on it.\<close>

definition listening :: "world \<Rightarrow> nat \<Rightarrow> bool" where
  "listening w c = (c \<in> fst ` set (listeners w))"

text \<open>A \<^verbatim>\<open>RoomState.members\<close> event for the room \<open>R\<close>.\<close>

fun for_room :: "string \<Rightarrow> event \<Rightarrow> bool" where
  "for_room R (RoomState_members c state) = (roomId state = R)"
| "for_room R (Sync c state) = False"

text \<open>
  The cache holds the list \<open>ks\<close> for \<open>R\<close>: as an own property, or as the prototype
  when \<open>R\<close> is \<^verbatim>\<open>__proto__\<close>.
\<close>

definition holds :: "cache \<Rightarrow> string \<Rightarrow> string list \<Rightarrow> bool" where
  "holds c R ks =
     (own c R = Some ks \<or> (R = ''__proto__'' \<and> own c R = None \<and> prototype c = Some ks))"




definition cache_distinct :: "cache \<Rightarrow> bool" where
  "cache_distinct c =
     ((\<forall>k ks. own c k = Some ks \<longrightarrow> distinct ks) \<and>
      (\<forall>ks. prototype c = Some ks \<longrightarrow> distinct ks))"




section \<open>A concrete engine and a concrete puppet\<close>

text \<open>
  An engine for the concrete cases: the string-keyed properties of
  \<^verbatim>\<open>Object.prototype\<close> (other than the accessor \<^verbatim>\<open>__proto__\<close>) and of
  \<^verbatim>\<open>Array.prototype\<close> (other than \<^verbatim>\<open>length\<close>) as Node.js 10 has them, and its
  conversion to a string. The conversion is given for the values of the model: numbers
  below \<open>2 ^ 53\<close>, which the engine prints with all their digits; objects with no
  \<^verbatim>\<open>toString\<close> or \<^verbatim>\<open>valueOf\<close> of their own; the built-ins that \<open>inherited\<close>
  answers, a function under the name the engine gave it and \<^verbatim>\<open>Object.prototype\<close> as
  an object; an error object under its name, followed by its message when it has one.
\<close>

fun join :: "string \<Rightarrow> string list \<Rightarrow> string" where
  "join sep [] = []"
| "join sep [x] = x"
| "join sep (x # y # ys) = x @ sep @ join sep (y # ys)"

function dec :: "nat \<Rightarrow> string" where
  "dec n = (if n < 10 then [''0123456789'' ! n]
            else dec (n div 10) @ [''0123456789'' ! (n mod 10)])"
  by pat_completeness auto
termination
  by (relation "measure id") auto

declare dec.simps [simp del]

text \<open>
  The name of the built-in function found at \<open>n\<close>: the name of the property, but
  \<^verbatim>\<open>constructor\<close> holds the function \<^verbatim>\<open>Object\<close> or \<^verbatim>\<open>Array\<close>.
\<close>

definition function_name :: "string \<Rightarrow> string" where
  "function_name n =
     (if n = ''Object.prototype.constructor'' then ''Object''
      else if n = ''Array.prototype.constructor'' then ''Array''
      else rev (takeWhile (\<lambda>c. c \<noteq> CHR ''.'') (rev n)))"

fun ToString_node :: "jsval \<Rightarrow> string" where
  "ToString_node Undefined = ''undefined''"
| "ToString_node Null = ''null''"
| "ToString_node (Boolean b) = (if b then ''true'' else ''false'')"
| "ToString_node (Number n) = (if n < 0 then ''-'' @ dec (nat (- n)) else dec (nat n))"
| "ToString_node (String s) = s"
| "ToString_node (Array xs) =
     join '','' (map (\<lambda>x. if x = Undefined \<or> x = Null then [] else ToString_node x) xs)"
| "ToString_node (Object kvs) = ''[object Object]''"
| "ToString_node (Native n) =
     (if n = ''Object.prototype'' then ''[object Object]''
      else ''function '' @ function_name n @ ''() { [native code] }'')"
| "ToString_node (TypeError m) = (if m = [] then ''TypeError'' else ''TypeError: '' @ m)"

definition node :: engine where
  "node =
     \<lparr>ObjectPrototype =
        [''constructor'', ''__defineGetter__'', ''__defineSetter__'', ''hasOwnProperty'',
         ''__lookupGetter__'', ''__lookupSetter__'', ''isPrototypeOf'',
         ''propertyIsEnumerable'', ''toString'', ''valueOf'', ''toLocaleString''],
      ArrayPrototype =
        [''constructor'', ''concat'', ''copyWithin'', ''fill'', ''find'', ''findIndex'',
         ''lastIndexOf'', ''pop'', ''push'', ''reverse'', ''shift'', ''unshift'', ''slice'',
         ''sort'', ''splice'', ''includes'', ''indexOf'', ''join'', ''keys'', ''entries'',
         ''values'',
         ''forEach'', ''filter'', ''map'', ''every'', ''some'', ''reduce'', ''reduceRight'',
         ''toLocaleString'', ''toString''],
      ToString = ToString_node\<rparr>"

text \<open>
  The puppet of the scenario of the specification, an SDK that answers every call, and
  room states of the room \<^verbatim>\<open>!abc:example.org\<close> and of another room.
\<close>

definition example_config :: jsval where
  "example_config =
     Object [(''bridge'', Object [(''homeserverUrl'', String ''https://hs.example''),
                                  (''domain'', String ''example.org'')]),
             (''puppet'', Object [(''id'', String ''@bob:example.org''),
                                  (''token'', String ''tok'')])]"

definition example_world :: world where
  "example_world = new_world ''config.json'' None example_config"

definition sdk_ok :: "jsval \<Rightarrow> jsval + nat" where
  "sdk_ok opts = Inr 0"

definition sdk_down :: "jsval \<Rightarrow> jsval + nat" where
  "sdk_down opts = Inl (Object [(''message'', String ''connect ECONNREFUSED'')])"

definition start_ok :: "nat \<Rightarrow> jsval option" where
  "start_ok c = None"

definition room_abc :: string where
  "room_abc = ''!abc:example.org''"

definition state_abc :: roomState where
  "state_abc =
     \<lparr>roomId = room_abc,
      members = DAList.Alist [(''@bob:example.org'', Object []),
                              (''@alice:example.org'', Object []),
                              (''@carol:example.org'', Object [])]\<rparr>"

definition state_ab :: roomState where
  "state_ab =
     \<lparr>roomId = room_abc,
      members = DAList.Alist [(''@bob:example.org'', Object []),
                              (''@alice:example.org'', Object [])]\<rparr>"

definition state_other :: roomState where
  "state_other =
     \<lparr>roomId = ''!xyz:example.org'',
      members = DAList.Alist [(''@bob:example.org'', Object [])]\<rparr>"

text \<open>
  The world after \<^verbatim>\<open>startClient\<close> of the example puppet, and after a first
  \<^verbatim>\<open>RoomState.members\<close> event; answers of the SDK's client, of the prompt, of the
  login and of the file system.
\<close>

definition example_started :: world where
  "example_started =
     \<lparr>this = \<lparr>config = example_config, pathToConfig = ''config.json'', client = Some 0,
              matrixRoomMembers = empty_cache\<rparr>,
      listeners = [(0, 0)], promises = [Pending], logged = []\<rparr>"

definition join_answers :: "nat \<Rightarrow> string \<Rightarrow> jsval + jsval" where
  "join_answers c room =
     (if room = ''!empty:example.org''
      then Inl (Object [(''message'', String ''No known servers'')])
      else if room = ''!private:example.org''
      then Inl (Object [(''message'', String ''Forbidden'')])
      else Inr (Object []))"

definition alias_answers :: "nat \<Rightarrow> string \<Rightarrow> jsval + jsval" where
  "alias_answers c alias =
     (if alias = ''#known:example.org'' then Inr (Object [(''room_id'', String room_abc)])
      else Inl (Object [(''errcode'', String ''M_NOT_FOUND''),
                        (''message'', String ''Room alias not found'')]))"

definition invite_answers :: "nat \<Rightarrow> jsval \<Rightarrow> jsval \<Rightarrow> nat \<Rightarrow> settled" where
  "invite_answers c room user i =
     (if user = String ''@carol:example.org''
      then (1, Inl (Object [(''message'', String ''Forbidden'')]))
      else (2, Inr (Object [])))"

definition answers :: "string \<Rightarrow> string \<Rightarrow> bool \<Rightarrow> jsval + string" where
  "answers password prompt hide = (if hide then Inr password else Inr ''bob'')"

definition login_answers :: "nat \<Rightarrow> string \<Rightarrow> string \<Rightarrow> jsval + (string \<times> jsval) list" where
  "login_answers c uid password =
     (if password = ''secret''
      then Inr [(''user_id'', String uid), (''access_token'', String ''tok2'')]
      else Inl (Object [(''message'', String ''Invalid password'')]))"

definition fs_ok :: "string \<Rightarrow> jsval \<Rightarrow> jsval option" where
  "fs_ok path v = None"

definition example_populated :: world where
  "example_populated = run [Emit (RoomState_members 0 state_abc)] example_started"

section \<open>Lemmas\<close>

lemma cache_set_idem: "cache_set (cache_set c k ks) k ks = cache_set c k ks"
  by (cases "k = ''__proto__'' \<and> own c k = None") (auto simp add: cache_set_def)

lemma holds_cache_set: "holds (cache_set c R ks) R ks"
  by (auto simp add: cache_set_def holds_def)

lemma on_RoomState_members_idem:
  "on_RoomState_members state (on_RoomState_members state p) = on_RoomState_members state p"
  by (simp add: on_RoomState_members_def cache_set_idem)

lemma holds_cache_set_other: "k \<noteq> R \<Longrightarrow> holds c R ks \<Longrightarrow> holds (cache_set c k ks') R ks"
  by (auto simp add: cache_set_def holds_def)

lemma holds_cache_get: "holds c R ks \<Longrightarrow> cache_get E c R = Array (map String ks)"
  by (auto simp add: cache_get_def holds_def inherited_def)

lemma fold_members_listeners:
  "listeners (fold (\<lambda>l w'. w'\<lparr>this := on_RoomState_members state (this w')\<rparr>) ls w) = listeners w"
  by (induction ls arbitrary: w) auto

lemma fold_members_this:
  "this (fold (\<lambda>l w'. w'\<lparr>this := on_RoomState_members state (this w')\<rparr>) ls w) =
     (if ls = [] then this w else on_RoomState_members state (this w))"
proof (induction ls arbitrary: w)
  case Nil then show ?case by simp
next
  case (Cons l ls)
  show ?case by (simp add: Cons.IH on_RoomState_members_idem)
qed

lemma emit_members_this:
  "this (emit (RoomState_members c state) w) =
     (if listening w c then on_RoomState_members state (this w) else this w)"
  by (auto simp add: fold_members_this listening_def filter_empty_conv image_iff)

lemma fold_sync_this: "this (fold (\<lambda>l. on_sync (snd l) state) ls w) = this w"
  by (induction ls arbitrary: w) (auto simp add: on_sync_def)

lemma fold_sync_listeners: "listeners (fold (\<lambda>l. on_sync (snd l) state) ls w) = listeners w"
  by (induction ls arbitrary: w) (auto simp add: on_sync_def)

lemma emit_listeners: "listeners (emit e w) = listeners w"
  by (cases e) (simp_all add: fold_members_listeners fold_sync_listeners)

lemma emit_sync_this: "this (emit (Sync c state) w) = this w"
  by (simp add: fold_sync_this)

lemma emit_other_holds:
  "\<not> for_room R e \<Longrightarrow> holds (matrixRoomMembers (this w)) R ks \<Longrightarrow>
     holds (matrixRoomMembers (this (emit e w))) R ks"
  by (cases e) (auto simp add: emit_members_this emit_sync_this on_RoomState_members_def holds_cache_set_other simp del: emit.simps)


lemma run_Cons: "run (a # xs) w = run xs (step a w)"
  by (simp add: run_def)

lemma run_Nil: "run [] w = w"
  by (simp add: run_def)

lemma run_events_holds:
  "\<forall>e\<in>set es. \<not> for_room R e \<Longrightarrow> holds (matrixRoomMembers (this w)) R ks \<Longrightarrow>
     holds (matrixRoomMembers (this (run (map Emit es) w))) R ks"
proof (induction es arbitrary: w)
  case Nil then show ?case by (simp add: run_Nil)
next
  case (Cons e es)
  then show ?case by (simp add: run_Cons emit_other_holds del: emit.simps)
qed

declare emit.simps [simp del]

lemma emit_cache_cases:
  "matrixRoomMembers (this (emit e w)) = matrixRoomMembers (this w) \<or>
   (\<exists>c s. e = RoomState_members c s \<and>
      matrixRoomMembers (this (emit e w)) =
        cache_set (matrixRoomMembers (this w)) (roomId s) (Object_keys (members s)))"
  by (cases e) (auto simp add: emit_members_this emit_sync_this on_RoomState_members_def simp del: emit.simps)



lemma startClient_ok_cache:
  "startClient cc cs w = (w', Inr n) \<Longrightarrow> matrixRoomMembers (this w') = empty_cache"
  by (auto simp add: startClient_def Let_def split: sum.splits option.splits)

lemma startClient_fail_cache:
  "startClient cc cs w = (w', Inl e) \<Longrightarrow> matrixRoomMembers (this w') = matrixRoomMembers (this w)"
  by (auto simp add: startClient_def Let_def split: sum.splits option.splits)






lemma dom_own_cache_set: "dom (own c) \<subseteq> dom (own (cache_set c k ks))"
  by (auto simp add: cache_set_def)

lemma emit_dom_own:
  "dom (own (matrixRoomMembers (this w))) \<subseteq> dom (own (matrixRoomMembers (this (emit e w))))"
  using emit_cache_cases[of e w] dom_own_cache_set[of "matrixRoomMembers (this w)"] by fastforce

lemma run_events_dom_own:
  "dom (own (matrixRoomMembers (this w))) \<subseteq> dom (own (matrixRoomMembers (this (run (map Emit es) w))))"
proof (induction es arbitrary: w)
  case Nil then show ?case by (simp add: run_Nil)
next
  case (Cons e es)
  have "dom (own (matrixRoomMembers (this w))) \<subseteq> dom (own (matrixRoomMembers (this (emit e w))))"
    by (rule emit_dom_own)
  also have "\<dots> \<subseteq> dom (own (matrixRoomMembers (this (run (map Emit es) (emit e w)))))"
    by (rule Cons.IH)
  finally show ?case by (simp add: run_Cons del: emit.simps)
qed

lemma distinct_Object_keys: "distinct (Object_keys m)"
  by (simp add: Object_keys_def)

lemma cache_distinct_empty: "cache_distinct empty_cache"
  by (simp add: cache_distinct_def empty_cache_def)

lemma cache_distinct_set: "cache_distinct c \<Longrightarrow> distinct ks \<Longrightarrow> cache_distinct (cache_set c k ks)"
  by (auto simp add: cache_distinct_def cache_set_def)

lemma emit_cache_distinct:
  "cache_distinct (matrixRoomMembers (this w)) \<Longrightarrow> cache_distinct (matrixRoomMembers (this (emit e w)))"
  using emit_cache_cases[of e w] by (auto simp add: cache_distinct_set distinct_Object_keys)

lemma startClient_cache_distinct:
  "cache_distinct (matrixRoomMembers (this w)) \<Longrightarrow>
     cache_distinct (matrixRoomMembers (this (fst (startClient cc cs w))))"
proof (cases "snd (startClient cc cs w)")
  case (Inl e)
  then have "startClient cc cs w = (fst (startClient cc cs w), Inl e)" by (metis prod.collapse)
  from startClient_fail_cache[OF this] show "cache_distinct (matrixRoomMembers (this w)) \<Longrightarrow> ?thesis" by simp
next
  case (Inr n)
  then have "startClient cc cs w = (fst (startClient cc cs w), Inr n)" by (metis prod.collapse)
  from startClient_ok_cache[OF this] show ?thesis by (simp add: cache_distinct_empty)
qed

lemma step_cache_distinct:
  "cache_distinct (matrixRoomMembers (this w)) \<Longrightarrow> cache_distinct (matrixRoomMembers (this (step a w)))"
  by (cases a) (simp_all add: emit_cache_distinct startClient_cache_distinct del: emit.simps)

lemma run_cache_distinct:
  "cache_distinct (matrixRoomMembers (this w)) \<Longrightarrow> cache_distinct (matrixRoomMembers (this (run as w)))"
  by (induction as arbitrary: w) (simp_all add: run_Nil run_Cons step_cache_distinct)

lemma distinct_map_String: "distinct ks \<Longrightarrow> distinct (map String ks)"
  by (simp add: distinct_map inj_on_def)

lemma cache_get_distinct:
  "cache_distinct c \<Longrightarrow> cache_get E c R = Array xs \<Longrightarrow> distinct xs"
  by (auto simp add: cache_get_def cache_distinct_def inherited_def from_Array_prototype_def from_Object_prototype_def
        distinct_map_String split: option.splits if_splits)























lemma map_filter_Nil_conv: "(List.map_filter f xs = []) = (\<forall>x\<in>set xs. f x = None)"
  by (induction xs) (auto simp add: List.map_filter_simps split: option.splits)

lemma map_filter_mem: "e \<in> set (List.map_filter f xs) \<Longrightarrow> \<exists>x\<in>set xs. f x = Some e"
  by (induction xs) (auto simp add: List.map_filter_simps split: option.splits)

lemma rejection_None: "(rejection r = None) = (\<not> isl (snd r))"
  by (cases "snd r") (simp_all add: rejection_def)

lemma rejection_Some: "(rejection r = Some e) = (snd r = Inl e)"
  by (cases "snd r") (simp_all add: rejection_def)

lemma isl_then_log: "isl (snd (then_log logret r)) = isl (snd r)"
  by (cases "snd r") (simp_all add: then_log_def)

lemma projr_then_log: "\<not> isl (snd r) \<Longrightarrow> projr (snd (then_log logret r)) = logret"
  by (cases "snd r") (simp_all add: then_log_def)

lemma Promise_all_rejected:
  "\<exists>r\<in>set rs. isl (snd r) \<Longrightarrow> \<exists>e. Promise_all rs = Rejected e \<and> (\<exists>t. (t, Inl e) \<in> set rs)"
proof -
  assume "\<exists>r\<in>set rs. isl (snd r)"
  then have "List.map_filter rejection (sort_key fst rs) \<noteq> []"
    by (simp add: map_filter_Nil_conv rejection_None)
  then obtain e es where eq: "List.map_filter rejection (sort_key fst rs) = e # es"
    by (cases "List.map_filter rejection (sort_key fst rs)") auto
  then have "e \<in> set (List.map_filter rejection (sort_key fst rs))" by simp
  then obtain r where "r \<in> set rs" "snd r = Inl e"
    using map_filter_mem[of e rejection "sort_key fst rs"] by (auto simp add: rejection_Some)
  then have "\<exists>t. (t, Inl e) \<in> set rs"
    by (metis prod.collapse)
  with eq show ?thesis by (simp add: Promise_all_def)
qed

lemma Promise_all_fulfilled:
  "\<forall>r\<in>set rs. \<not> isl (snd r) \<Longrightarrow> Promise_all rs = Fulfilled (Array (map (\<lambda>r. projr (snd r)) rs))"
proof -
  assume a: "\<forall>r\<in>set rs. \<not> isl (snd r)"
  then have "List.map_filter rejection (sort_key fst rs) = []"
    by (simp add: map_filter_Nil_conv rejection_None)
  moreover have "List.map_filter fulfilment rs = map (\<lambda>r. projr (snd r)) rs"
    using a by (induction rs) (auto simp add: List.map_filter_simps fulfilment_def split: sum.splits)
  ultimately show ?thesis by (simp add: Promise_all_def)
qed

lemma invites_nth: "i < length users \<Longrightarrow> invites ci c room users ! i = ci c room (users ! i) i"
  by (simp add: invites_def nth_enumerate_eq)

lemma length_invites: "length (invites ci c room users) = length users"
  by (simp add: invites_def)

lemma invite_Some:
  "client p = Some c \<Longrightarrow> invite ci logret p room (Array users) =
     (Inr (Promise (Promise_all (map (then_log logret) (invites ci c room users)))),
      (Info, [String ''Users to invite'', Array users]) #
         List.map_filter (invited_line room)
           (sort_key (\<lambda>ru. fst (fst ru)) (zip (invites ci c room users) users)),
      map (Pair room) users)"
  by (simp add: invite_def Let_def)

lemma readable_is_Object:
  assumes "get_property cfg ''bridge'' = Inr bridge" and "get_property bridge ''domain'' = Inr domain"
  shows "\<exists>kvs. cfg = Object kvs"
  using assms by (cases cfg) (auto split: if_splits)

lemma with_puppet_Object:
  "map_of (with_puppet E (Object cfg) uid localpart token) ''puppet'' =
     Some (Object [(''id'', String uid), (''localpart'', String localpart), (''token'', token)]) \<and>
   (\<forall>k. k \<noteq> ''puppet'' \<longrightarrow> map_of (with_puppet E (Object cfg) uid localpart token) k = map_of cfg k) \<and>
   map fst (with_puppet E (Object cfg) uid localpart token) =
     (if ''puppet'' \<in> set (map fst cfg) then map fst cfg else map fst cfg @ [''puppet''])"
  by (simp add: with_puppet_def AList.update_conv' AList.update_keys)

lemma example_start: "startClient sdk_ok start_ok example_world = (example_started, Inr 0)"
  by (simp add: startClient_def example_world_def new_world_def new_Puppet_def example_config_def
        sdk_ok_def start_ok_def example_started_def)

lemma example_populated_eq:
  "example_populated =
     \<lparr>this =
        \<lparr>config = example_config, pathToConfig = ''config.json'', client = Some 0,
         matrixRoomMembers =
           \<lparr>own = [room_abc \<mapsto>
                     [''@bob:example.org'', ''@alice:example.org'', ''@carol:example.org'']],
            prototype = None\<rparr>\<rparr>,
      listeners = [(0, 0)], promises = [Pending], logged = []\<rparr>"
  by (simp add: example_populated_def run_Cons run_Nil emit.simps
        example_started_def on_RoomState_members_def cache_set_def empty_cache_def state_abc_def
        room_abc_def Object_keys_def DAList.impl_of_Alist)

section \<open>The claims\<close>

text \<open>
  C1. Each \<^verbatim>\<open>RoomState.members\<close> event replaces the cached member list of its room.
  Let an event for the room \<open>R\<close> occur (state \<open>sa\<close>, say with the members a, b and c)
  and later an observed event for \<open>R\<close> with state \<open>sb\<close> (say with the members a and
  b), whatever happens before and in between; as long as only events of other rooms
  follow, \<^verbatim>\<open>getMatrixRoomMembers(R)\<close> returns exactly the keys of the members of
  \<open>sb\<close>: the latest event wins, nothing of the earlier list is kept. This holds for
  every string \<open>R\<close>, \<^verbatim>\<open>__proto__\<close> included.
\<close>

theorem members_event_replaces:
  assumes "roomId sa = R" and "roomId sb = R"
    and "listening (run (pre @ Emit (RoomState_members ca sa) # mid) w) cb"
    and "\<forall>e\<in>set post. \<not> for_room R e"
  shows "getMatrixRoomMembers E
           (this (run (pre @ Emit (RoomState_members ca sa) # mid @
                        Emit (RoomState_members cb sb) # map Emit post) w)) R
         = Array (map String (Object_keys (members sb)))"
proof -
  let ?w = "run (pre @ Emit (RoomState_members ca sa) # mid) w"
  have "holds (matrixRoomMembers (this (emit (RoomState_members cb sb) ?w))) R (Object_keys (members sb))"
    using assms(2,3) by (simp add: emit_members_this on_RoomState_members_def holds_cache_set del: emit.simps)
  then have "holds (matrixRoomMembers (this (run (map Emit post) (emit (RoomState_members cb sb) ?w)))) R (Object_keys (members sb))"
    using assms(4) by (rule run_events_holds[rotated])
  moreover have "run (pre @ Emit (RoomState_members ca sa) # mid @
                        Emit (RoomState_members cb sb) # map Emit post) w = run (map Emit post) (emit (RoomState_members cb sb) ?w)"
    by (simp add: run_def)
  ultimately show ?thesis
    by (simp add: getMatrixRoomMembers_def holds_cache_get)
qed

text \<open>The instance of the claim: members bob, alice and carol, then bob and alice.\<close>

theorem members_event_replaces_witness:
  "getMatrixRoomMembers node
     (this (run [Start sdk_ok start_ok, Emit (RoomState_members 0 state_abc),
                 Emit (Sync 0 ''PREPARED''), Emit (RoomState_members 0 state_ab),
                 Emit (RoomState_members 0 state_other)] example_world)) room_abc
   = Array [String ''@bob:example.org'', String ''@alice:example.org'']"
  using members_event_replaces[of state_abc room_abc state_ab "[Start sdk_ok start_ok]" 0
          "[Emit (Sync 0 ''PREPARED'')]" example_world 0 "[RoomState_members 0 state_other]" node]
  by (simp add: state_abc_def state_ab_def state_other_def room_abc_def listening_def
        run_Cons run_Nil emit_listeners example_start example_started_def Object_keys_def
        DAList.impl_of_Alist)

text \<open>
  C2. \<^verbatim>\<open>joinRoom\<close> has three outcomes. When the join of the client succeeds, the
  promise is fulfilled with \<^verbatim>\<open>undefined\<close> and nothing is logged. When the join fails
  with an error whose message is exactly \<^verbatim>\<open>No known servers\<close>, it is fulfilled with
  \<^verbatim>\<open>true\<close>. When the join fails with an error of any other message, the message is
  logged as a warning and the promise is fulfilled with \<^verbatim>\<open>undefined\<close>: the caller
  sees no rejection.
\<close>

theorem joinRoom_three_way:
  assumes "client p = Some c"
  shows "(\<forall>v. client_joinRoom c matrixRoomId = Inr v \<longrightarrow>
            joinRoom client_joinRoom p matrixRoomId = (Fulfilled Undefined, [])) \<and>
         (\<forall>err. client_joinRoom c matrixRoomId = Inl err \<longrightarrow>
            get_property err ''message'' = Inr (String ''No known servers'') \<longrightarrow>
            joinRoom client_joinRoom p matrixRoomId =
              (Fulfilled (Boolean True), [(Warn, [String no_known_servers_warning])])) \<and>
         (\<forall>err m. client_joinRoom c matrixRoomId = Inl err \<longrightarrow>
            get_property err ''message'' = Inr m \<longrightarrow> m \<noteq> String ''No known servers'' \<longrightarrow>
            joinRoom client_joinRoom p matrixRoomId =
              (Fulfilled Undefined,
               [(Warn, [String ''ignoring error from puppet join room: '', m])]))"
  using assms by (simp add: joinRoom_def)

text \<open>The three outcomes at concrete answers of the client.\<close>

theorem joinRoom_three_way_witness:
  "joinRoom join_answers (this example_started) room_abc = (Fulfilled Undefined, []) \<and>
   joinRoom join_answers (this example_started) ''!empty:example.org'' =
     (Fulfilled (Boolean True), [(Warn, [String no_known_servers_warning])]) \<and>
   joinRoom join_answers (this example_started) ''!private:example.org'' =
     (Fulfilled Undefined,
      [(Warn, [String ''ignoring error from puppet join room: '', String ''Forbidden''])])"
  using joinRoom_three_way[of "this example_started" 0 join_answers room_abc]
    joinRoom_three_way[of "this example_started" 0 join_answers "''!empty:example.org''"]
    joinRoom_three_way[of "this example_started" 0 join_answers "''!private:example.org''"]
  by (simp add: example_started_def join_answers_def room_abc_def)

text \<open>
  C3. \<^verbatim>\<open>associate\<close>, once both prompts are answered and the client is created:
  when the login succeeds, exactly one file is written, at \<^verbatim>\<open>pathToConfig\<close>, and the
  object serialised into it has the key \<^verbatim>\<open>puppet\<close> bound to \<open>{id, localpart,
  token}\<close>, every other key bound as in the held configuration, and the keys of the
  held configuration in their order, \<^verbatim>\<open>puppet\<close> added at the end when it was not
  there; when the login fails, nothing is written, the error is logged and the promise
  is rejected with it.
\<close>

theorem associate_writes_merged_config:
  assumes "question localpart_prompt False = Inr localpart"
    and "get_property (config p) ''bridge'' = Inr bridge"
    and "get_property bridge ''domain'' = Inr domain"
    and "question (password_prompt (puppet_id E localpart domain)) True = Inr password"
    and "get_property bridge ''homeserverUrl'' = Inr url"
    and "createClient url = Inr matrixClient"
  shows
    "(\<forall>accessDat.
        loginWithPassword matrixClient (puppet_id E localpart domain) password = Inr accessDat \<longrightarrow>
        (\<exists>cfg written.
           config p = Object cfg \<and>
           snd (snd (associate E question createClient loginWithPassword writeFile p)) =
             [(pathToConfig p, Object written)] \<and>
           map_of written ''puppet'' =
             Some (Object [(''id'', String (puppet_id E localpart domain)),
                           (''localpart'', String localpart),
                           (''token'', access_token accessDat)]) \<and>
           (\<forall>k. k \<noteq> ''puppet'' \<longrightarrow> map_of written k = map_of cfg k) \<and>
           map fst written =
             (if ''puppet'' \<in> set (map fst cfg) then map fst cfg
              else map fst cfg @ [''puppet'']))) \<and>
     (\<forall>error.
        loginWithPassword matrixClient (puppet_id E localpart domain) password = Inl error \<longrightarrow>
        associate E question createClient loginWithPassword writeFile p =
          (Rejected error, [(Info, [String banner]), (Error, [error])], []))"
proof (intro conjI allI impI)
  fix accessDat
  assume login: "loginWithPassword matrixClient (puppet_id E localpart domain) password = Inr accessDat"
  from readable_is_Object[OF assms(2,3)] obtain cfg where cfg: "config p = Object cfg" by blast
  let ?written = "with_puppet E (Object cfg) (puppet_id E localpart domain) localpart (access_token accessDat)"
  have "snd (snd (associate E question createClient loginWithPassword writeFile p)) =
          [(pathToConfig p, Object ?written)]"
    using assms login cfg
    by (simp add: associate_def associate_try_def Let_def split: option.splits)
  with cfg with_puppet_Object[of E cfg "puppet_id E localpart domain" localpart "access_token accessDat"]
  show "\<exists>cfg written.
           config p = Object cfg \<and>
           snd (snd (associate E question createClient loginWithPassword writeFile p)) =
             [(pathToConfig p, Object written)] \<and>
           map_of written ''puppet'' =
             Some (Object [(''id'', String (puppet_id E localpart domain)),
                           (''localpart'', String localpart),
                           (''token'', access_token accessDat)]) \<and>
           (\<forall>k. k \<noteq> ''puppet'' \<longrightarrow> map_of written k = map_of cfg k) \<and>
           map fst written =
             (if ''puppet'' \<in> set (map fst cfg) then map fst cfg
              else map fst cfg @ [''puppet''])"
    by blast
next
  fix error
  assume "loginWithPassword matrixClient (puppet_id E localpart domain) password = Inl error"
  then show "associate E question createClient loginWithPassword writeFile p =
          (Rejected error, [(Info, [String banner]), (Error, [error])], [])"
    using assms by (simp add: associate_def associate_try_def Let_def)
qed

text \<open>A login that succeeds and one that fails, on the configuration of the scenario.\<close>

theorem associate_writes_merged_config_witness:
  "(\<exists>written.
      snd (snd (associate node (answers ''secret'') sdk_ok login_answers fs_ok (this example_world))) =
        [(''config.json'', Object written)] \<and>
      map_of written ''puppet'' =
        Some (Object [(''id'', String ''@bob:example.org''), (''localpart'', String ''bob''),
                      (''token'', String ''tok2'')]) \<and>
      map_of written ''bridge'' =
        Some (Object [(''homeserverUrl'', String ''https://hs.example''),
                      (''domain'', String ''example.org'')]) \<and>
      map fst written = [''bridge'', ''puppet'']) \<and>
   associate node (answers ''guess'') sdk_ok login_answers fs_ok (this example_world) =
     (Rejected (Object [(''message'', String ''Invalid password'')]),
      [(Info, [String banner]), (Error, [Object [(''message'', String ''Invalid password'')]])],
      [])"
proof -
  let ?bridge = "Object [(''homeserverUrl'', String ''https://hs.example''),
                         (''domain'', String ''example.org'')]"
  have cfg: "config (this example_world) = example_config"
    by (simp add: example_world_def new_world_def new_Puppet_def)
  have path: "pathToConfig (this example_world) = ''config.json''"
    by (simp add: example_world_def new_world_def new_Puppet_def)
  have b: "get_property (config (this example_world)) ''bridge'' = Inr ?bridge"
    by (simp add: cfg example_config_def)
  have d: "get_property ?bridge ''domain'' = Inr (String ''example.org'')" by simp
  have u: "get_property ?bridge ''homeserverUrl'' = Inr (String ''https://hs.example'')" by simp
  have i: "puppet_id node ''bob'' (String ''example.org'') = ''@bob:example.org''"
    by (simp add: puppet_id_def node_def)
  have q: "answers pw localpart_prompt False = Inr ''bob''" for pw by (simp add: answers_def)
  have pw: "answers pw (password_prompt (puppet_id node ''bob'' (String ''example.org''))) True = Inr pw" for pw
    by (simp add: answers_def)
  have c: "sdk_ok (String ''https://hs.example'') = Inr 0" by (simp add: sdk_ok_def)
  let ?uid = "puppet_id node ''bob'' (String ''example.org'')"
  have l: "login_answers 0 ?uid ''secret'' =
             Inr [(''user_id'', String ?uid), (''access_token'', String ''tok2'')]"
    by (simp add: login_answers_def)
  have r: "login_answers 0 ?uid ''guess'' = Inl (Object [(''message'', String ''Invalid password'')])"
    by (simp add: login_answers_def)
  have t: "access_token [(''user_id'', String ?uid), (''access_token'', String ''tok2'')] =
             String ''tok2''"
    by (simp add: access_token_def)
  note good = associate_writes_merged_config[where question = "answers ''secret''"
      and localpart = "''bob''" and p = "this example_world" and bridge = ?bridge
      and domain = "String ''example.org''" and E = node and password = "''secret''"
      and url = "String ''https://hs.example''" and createClient = sdk_ok and matrixClient = 0
      and loginWithPassword = login_answers and writeFile = fs_ok,
      OF q b d pw u c, THEN conjunct1, rule_format, OF l]
  note bad = associate_writes_merged_config[where question = "answers ''guess''"
      and localpart = "''bob''" and p = "this example_world" and bridge = ?bridge
      and domain = "String ''example.org''" and E = node and password = "''guess''"
      and url = "String ''https://hs.example''" and createClient = sdk_ok and matrixClient = 0
      and loginWithPassword = login_answers and writeFile = fs_ok,
      OF q b d pw u c, THEN conjunct2, rule_format, OF r]
  from good obtain cfg written where
    w1: "config (this example_world) = Object cfg" and
    w2: "snd (snd (associate node (answers ''secret'') sdk_ok login_answers fs_ok
                     (this example_world))) = [(pathToConfig (this example_world), Object written)]" and
    w3: "map_of written ''puppet'' =
           Some (Object [(''id'', String ?uid), (''localpart'', String ''bob''),
                         (''token'', access_token [(''user_id'', String ?uid),
                                                   (''access_token'', String ''tok2'')])])" and
    w4: "\<forall>k. k \<noteq> ''puppet'' \<longrightarrow> map_of written k = map_of cfg k" and
    w5: "map fst written =
           (if ''puppet'' \<in> set (map fst cfg) then map fst cfg else map fst cfg @ [''puppet''])"
    by (elim exE conjE) (rule that)
  from w1 have cfg': "cfg = [(''bridge'', ?bridge),
                             (''puppet'', Object [(''id'', String ''@bob:example.org''),
                                                  (''token'', String ''tok'')])]"
    by (simp add: cfg example_config_def)
  have p1: "map_of written ''puppet'' =
        Some (Object [(''id'', String ''@bob:example.org''), (''localpart'', String ''bob''),
                      (''token'', String ''tok2'')])"
    using w3 by (simp add: i access_token_def)
  have "map_of written ''bridge'' = map_of cfg ''bridge''" using w4 by simp
  then have p2: "map_of written ''bridge'' = Some ?bridge" by (simp add: cfg')
  have p3: "map fst written = [''bridge'', ''puppet'']" using w5 by (simp add: cfg')
  have first: "\<exists>written.
      snd (snd (associate node (answers ''secret'') sdk_ok login_answers fs_ok (this example_world))) =
        [(''config.json'', Object written)] \<and>
      map_of written ''puppet'' =
        Some (Object [(''id'', String ''@bob:example.org''), (''localpart'', String ''bob''),
                      (''token'', String ''tok2'')]) \<and>
      map_of written ''bridge'' = Some ?bridge \<and>
      map fst written = [''bridge'', ''puppet'']"
    by (intro exI[of _ written] conjI) (simp_all add: w2 path p1 p2 p3)
  show ?thesis by (rule conjI[OF first bad])
qed

text \<open>
  C4. \<^verbatim>\<open>invite(room, users)\<close> with a list of users calls the client's
  \<^verbatim>\<open>invite\<close> once for each user, in order; when at least one of these invites
  is rejected, the promise returned is rejected, whatever the other invites did, and
  it is fulfilled when none is rejected.
\<close>

theorem invite_all_or_nothing:
  assumes "client p = Some c"
  shows "snd (snd (invite ci logret p room (Array users))) = map (Pair room) users \<and>
         ((\<exists>i<length users. isl (snd (ci c room (users ! i) i))) \<longrightarrow>
            (\<exists>e. fst (invite ci logret p room (Array users)) = Inr (Promise (Rejected e)))) \<and>
         ((\<forall>i<length users. \<not> isl (snd (ci c room (users ! i) i))) \<longrightarrow>
            fst (invite ci logret p room (Array users)) =
              Inr (Promise (Fulfilled (Array (replicate (length users) logret)))))"
proof (intro conjI impI)
  show "snd (snd (invite ci logret p room (Array users))) = map (Pair room) users"
    by (simp add: invite_Some[OF assms])
next
  let ?rs = "map (then_log logret) (invites ci c room users)"
  assume "\<exists>i<length users. isl (snd (ci c room (users ! i) i))"
  then obtain i where i: "i < length users" "isl (snd (ci c room (users ! i) i))" by auto
  have "?rs ! i \<in> set ?rs" using i(1) by (simp add: length_invites)
  moreover have "isl (snd (?rs ! i))"
    using i by (simp add: length_invites invites_nth isl_then_log)
  ultimately have "\<exists>r\<in>set ?rs. isl (snd r)" by blast
  from Promise_all_rejected[OF this] show "\<exists>e. fst (invite ci logret p room (Array users)) = Inr (Promise (Rejected e))"
    by (auto simp add: invite_Some[OF assms])
next
  let ?rs = "map (then_log logret) (invites ci c room users)"
  assume a: "\<forall>i<length users. \<not> isl (snd (ci c room (users ! i) i))"
  have ok: "\<not> isl (snd (invites ci c room users ! i))" if "i < length users" for i
    using that a by (simp add: invites_nth)
  have "\<forall>r\<in>set (invites ci c room users). \<not> isl (snd r)"
    using ok by (metis in_set_conv_nth length_invites)
  then have "\<forall>r\<in>set ?rs. \<not> isl (snd r)"
    by (simp add: isl_then_log)
  from Promise_all_fulfilled[OF this]
  have "Promise_all ?rs = Fulfilled (Array (map (\<lambda>r. projr (snd r)) ?rs))" .
  moreover have "map (\<lambda>r. projr (snd r)) ?rs = replicate (length users) logret"
    by (rule nth_equalityI) (simp_all add: length_invites ok projr_then_log)
  ultimately show "fst (invite ci logret p room (Array users)) =
              Inr (Promise (Fulfilled (Array (replicate (length users) logret))))"
    by (simp add: invite_Some[OF assms])
qed

text \<open>Two users, the invite of the second rejected; and one user, invited.\<close>

theorem invite_all_or_nothing_witness:
  "snd (snd (invite invite_answers Undefined (this example_started) (String room_abc)
               (Array [String ''@alice:example.org'', String ''@carol:example.org'']))) =
     [(String room_abc, String ''@alice:example.org''),
      (String room_abc, String ''@carol:example.org'')] \<and>
   (\<exists>e. fst (invite invite_answers Undefined (this example_started) (String room_abc)
               (Array [String ''@alice:example.org'', String ''@carol:example.org''])) =
          Inr (Promise (Rejected e))) \<and>
   fst (invite invite_answers Undefined (this example_started) (String room_abc)
          (Array [String ''@alice:example.org''])) =
     Inr (Promise (Fulfilled (Array [Undefined])))"
proof -
  have c: "client (this example_started) = Some 0" by (simp add: example_started_def)
  have bad: "\<exists>i<length [String ''@alice:example.org'', String ''@carol:example.org''].
           isl (snd (invite_answers 0 (String room_abc)
                  ([String ''@alice:example.org'', String ''@carol:example.org''] ! i) i))"
    by (rule exI[of _ 1]) (simp add: invite_answers_def)
  have good: "\<forall>i<length [String ''@alice:example.org''].
           \<not> isl (snd (invite_answers 0 (String room_abc) ([String ''@alice:example.org''] ! i) i))"
    by (simp add: invite_answers_def)
  from invite_all_or_nothing[OF c, of invite_answers Undefined "String room_abc"
         "[String ''@alice:example.org'', String ''@carol:example.org'']"] bad
       invite_all_or_nothing[OF c, of invite_answers Undefined "String room_abc"
         "[String ''@alice:example.org'']"] good
  show ?thesis by simp
qed

text \<open>
  C5, as amended. \<^verbatim>\<open>invite(room, users)\<close> with an absent user list (any falsy
  value) calls no invite of the client, logs the debug line and returns
  \<^verbatim>\<open>undefined\<close> at once; with the empty list it calls no invite of the client
  either and returns a promise fulfilled with the empty array.
\<close>

theorem invite_nothing_to_do:
  "(\<not> truthy invitedUsers \<longrightarrow>
      invite ci logret p room invitedUsers =
        (Inr (Value Undefined), [already_joined_line room], [])) \<and>
   fst (invite ci logret p room (Array [])) = Inr (Promise (Fulfilled (Array []))) \<and>
   snd (snd (invite ci logret p room (Array []))) = []"
  by (auto simp add: invite_def invites_def Promise_all_def List.map_filter_simps Let_def split: option.splits)

text \<open>An absent list and the empty list.\<close>

theorem invite_nothing_to_do_witness:
  "invite invite_answers Undefined (this example_started) (String room_abc) Undefined =
     (Inr (Value Undefined), [already_joined_line (String room_abc)], []) \<and>
   fst (invite invite_answers Undefined (this example_started) (String room_abc) (Array [])) =
     Inr (Promise (Fulfilled (Array []))) \<and>
   snd (snd (invite invite_answers Undefined (this example_started) (String room_abc) (Array []))) = []"
  using invite_nothing_to_do[of Undefined invite_answers Undefined "this example_started" "String room_abc"]
  by simp

text \<open>
  The claim as stated fails for the empty list: an empty array is truthy, the guard of
  line 134 does not apply, and the only line logged is the info line of line 138.
\<close>

theorem invite_empty_list_logs_info:
  "fst (snd (invite invite_answers Undefined (this example_started) (String room_abc) (Array []))) =
     [(Info, [String ''Users to invite'', Array []])] \<and>
   Debug \<notin> fst ` set (fst (snd (invite invite_answers Undefined (this example_started)
                               (String room_abc) (Array []))))"
  by (simp add: invite_def invites_def example_started_def List.map_filter_simps)






text \<open>
  C8. \<^verbatim>\<open>getRoom\<close> never rejects. When the lookup of the alias fails, for whatever
  reason (the client rejects with any value, there is no client, or the response
  cannot be read), the promise is fulfilled with \<^verbatim>\<open>undefined\<close> and the only line
  logged is the debug line saying that the room does not exist.
\<close>

theorem getRoom_absorbs_failures:
  "(\<forall>c err. client p = Some c \<longrightarrow> getRoomIdForAlias c roomAlias = Inl err \<longrightarrow>
       getRoom getRoomIdForAlias p roomAlias = (Fulfilled Undefined, [room_absent_line])) \<and>
   (client p = None \<longrightarrow>
       getRoom getRoomIdForAlias p roomAlias = (Fulfilled Undefined, [room_absent_line])) \<and>
   (\<forall>c response e. client p = Some c \<longrightarrow> getRoomIdForAlias c roomAlias = Inr response \<longrightarrow>
       get_property response ''room_id'' = Inl e \<longrightarrow>
       getRoom getRoomIdForAlias p roomAlias = (Fulfilled Undefined, [room_absent_line])) \<and>
   (\<exists>v. fst (getRoom getRoomIdForAlias p roomAlias) = Fulfilled v)"
  by (auto simp add: getRoom_def room_absent_line_def split: option.splits sum.splits)

text \<open>An alias the client does not know, and a puppet without a client.\<close>

theorem getRoom_absorbs_failures_witness:
  "getRoom alias_answers (this example_started) ''#nowhere:example.org'' =
     (Fulfilled Undefined, [room_absent_line]) \<and>
   getRoom alias_answers (this example_world) ''#known:example.org'' =
     (Fulfilled Undefined, [room_absent_line])"
  using getRoom_absorbs_failures[of "this example_started" alias_answers "''#nowhere:example.org''"]
    getRoom_absorbs_failures[of "this example_world" alias_answers "''#known:example.org''"]
  by (simp add: example_started_def example_world_def new_world_def new_Puppet_def alias_answers_def)

text \<open>
  C9, as amended. A call of \<^verbatim>\<open>startClient\<close> that gets past the creation and the
  start of the client leaves the cache empty; a call that fails before leaves the
  cache as it was. Events never remove a key of the cache: its own keys before any
  sequence of events are among its own keys after.
\<close>

theorem cache_reset_and_keys_kept:
  "(\<forall>w' n. startClient cc cs w = (w', Inr n) \<longrightarrow> matrixRoomMembers (this w') = empty_cache) \<and>
   (\<forall>w' e. startClient cc cs w = (w', Inl e) \<longrightarrow>
      matrixRoomMembers (this w') = matrixRoomMembers (this w)) \<and>
   dom (own (matrixRoomMembers (this w))) \<subseteq>
     dom (own (matrixRoomMembers (this (run (map Emit es) w))))"
  using startClient_ok_cache[of cc cs w] startClient_fail_cache[of cc cs w]
    run_events_dom_own[of w es]
  by blast

text \<open>A start that succeeds and one that fails, on a cache that holds a room.\<close>

theorem cache_reset_and_keys_kept_witness:
  "matrixRoomMembers (this (fst (startClient sdk_ok start_ok example_populated))) = empty_cache \<and>
   matrixRoomMembers (this (fst (startClient sdk_down start_ok example_populated))) =
     matrixRoomMembers (this example_populated) \<and>
   room_abc \<in> dom (own (matrixRoomMembers (this
      (run (map Emit [RoomState_members 0 state_other, Sync 0 ''PREPARED'']) example_populated))))"
proof -
  have ok: "startClient sdk_ok start_ok example_populated =
              (fst (startClient sdk_ok start_ok example_populated), Inr (Suc 0))"
    by (simp add: startClient_def example_populated_eq example_config_def sdk_ok_def start_ok_def)
  have down: "startClient sdk_down start_ok example_populated =
              (fst (startClient sdk_down start_ok example_populated),
               Inl (Object [(''message'', String ''connect ECONNREFUSED'')]))"
    by (simp add: startClient_def example_populated_eq example_config_def sdk_down_def)
  have key: "room_abc \<in> dom (own (matrixRoomMembers (this example_populated)))"
    by (simp add: example_populated_eq)
  from cache_reset_and_keys_kept[of sdk_ok start_ok example_populated
         "[RoomState_members 0 state_other, Sync 0 ''PREPARED'']"] ok
       cache_reset_and_keys_kept[of sdk_down start_ok example_populated "[]"] down key
  show ?thesis by blast
qed

text \<open>
  The claim as stated fails for a call of \<^verbatim>\<open>startClient\<close> in which
  \<^verbatim>\<open>createClient\<close> throws: line 37 is not reached and the cache keeps the room.
\<close>

theorem failed_start_keeps_cache:
  "own (matrixRoomMembers (this (run [Start sdk_ok start_ok, Emit (RoomState_members 0 state_abc),
                                      Start sdk_down start_ok] example_world))) room_abc =
     Some [''@bob:example.org'', ''@alice:example.org'', ''@carol:example.org''] \<and>
   matrixRoomMembers (this (run [Start sdk_ok start_ok, Emit (RoomState_members 0 state_abc),
                                 Start sdk_down start_ok] example_world)) \<noteq> empty_cache"
proof -
  have "run [Start sdk_ok start_ok, Emit (RoomState_members 0 state_abc)] example_world =
          example_populated"
    by (simp add: run_Cons run_Nil example_start example_populated_def)
  then have "run [Start sdk_ok start_ok, Emit (RoomState_members 0 state_abc),
                  Start sdk_down start_ok] example_world =
             fst (startClient sdk_down start_ok example_populated)"
    by (simp add: run_Cons run_Nil)
  also have "\<dots> = example_populated"
    by (simp add: startClient_def example_populated_eq example_config_def sdk_down_def)
  finally show ?thesis by (auto simp add: example_populated_eq empty_cache_def)
qed

text \<open>
  C10. In every state the puppet can reach from its construction, by calls of
  \<^verbatim>\<open>startClient\<close> and events, a member list that \<^verbatim>\<open>getMatrixRoomMembers\<close>
  returns has no duplicates.
\<close>

theorem members_have_no_duplicates:
  assumes "getMatrixRoomMembers E (this (run as (new_world path cl cfg))) R = Array xs"
  shows "distinct xs"
proof -
  have inv: "cache_distinct (matrixRoomMembers (this (run as (new_world path cl cfg))))"
    by (rule run_cache_distinct) (simp add: new_world_def new_Puppet_def cache_distinct_empty)
  show ?thesis
  proof (cases "truthy (cache_get E (matrixRoomMembers (this (run as (new_world path cl cfg)))) R)")
    case True
    with assms have "cache_get E (matrixRoomMembers (this (run as (new_world path cl cfg)))) R = Array xs"
      by (simp add: getMatrixRoomMembers_def)
    with inv show ?thesis by (rule cache_get_distinct)
  next
    case False
    with assms show ?thesis by (simp add: getMatrixRoomMembers_def)
  qed
qed

text \<open>The members of the room of the scenario.\<close>

theorem members_have_no_duplicates_witness:
  "getMatrixRoomMembers node
     (this (run [Start sdk_ok start_ok, Emit (RoomState_members 0 state_ab)]
              (new_world ''config.json'' None example_config))) room_abc =
     Array [String ''@bob:example.org'', String ''@alice:example.org''] \<and>
   distinct [String ''@bob:example.org'', String ''@alice:example.org'']"
proof -
  have h: "getMatrixRoomMembers node
     (this (run [Start sdk_ok start_ok, Emit (RoomState_members 0 state_ab)]
              (new_world ''config.json'' None example_config))) room_abc =
     Array [String ''@bob:example.org'', String ''@alice:example.org'']"
    by (simp add: run_Cons run_Nil example_start[unfolded example_world_def] emit_members_this
          listening_def example_started_def on_RoomState_members_def cache_set_def empty_cache_def
          state_ab_def room_abc_def Object_keys_def DAList.impl_of_Alist getMatrixRoomMembers_def
          cache_get_def)
  from h members_have_no_duplicates[OF h] show ?thesis by blast
qed

end
